theory Spec2Isabelle
  imports Main
begin

section \<open>Package comparison (static/js/main.js)\<close>

subsection \<open>The JavaScript \<open>Set\<close> of selected identifiers\<close>

text \<open>
  \<^verbatim>\<open>let selectedPackages = new Set();\<close>
  A JavaScript \<open>Set\<close> holds each value at most once and iterates in insertion order.
  It is modelled as the list of its elements in insertion order; the representation
  invariant is \<open>distinct\<close>. Package identifiers are strings.
\<close>

type_synonym 'a js_set = "'a list"

definition Set_new :: "'a js_set" where
  "Set_new = []"

definition Set_has :: "'a js_set \<Rightarrow> 'a \<Rightarrow> bool" where
  "Set_has s x = (x \<in> set s)"

definition Set_add :: "'a js_set \<Rightarrow> 'a \<Rightarrow> 'a js_set" where
  "Set_add s x = (if x \<in> set s then s else s @ [x])"

definition Set_delete :: "'a js_set \<Rightarrow> 'a \<Rightarrow> 'a js_set" where
  "Set_delete s x = removeAll x s"

definition Set_size :: "'a js_set \<Rightarrow> nat" where
  "Set_size s = length s"

definition Array_from :: "'a js_set \<Rightarrow> 'a list" where
  "Array_from s = s"

text \<open>\<open>Array.prototype.join\<close> on an array of strings: the separator goes between elements.\<close>

fun join :: "string list \<Rightarrow> string \<Rightarrow> string" where
  "join [] sep = []"
| "join [x] sep = x"
| "join (x # y # ys) sep = x @ sep @ join (y # ys) sep"

subsection \<open>Page state\<close>

text \<open>
  The state the comparison code reads and writes: the global set, the element with id
  \<open>compareBtn\<close> (\<open>getElementById\<close> gives \<open>null\<close> when the page has none) with the
  two properties the code assigns, and the messages passed to \<open>alert\<close>, oldest first.
\<close>

record anchor =
  href :: string
  display :: string

record page =
  selectedPackages :: "string js_set"
  compareBtn :: "anchor option"
  alerts :: "string list"

text \<open>What a call evaluates to. Neither function below has a \<open>return\<close> statement.\<close>

datatype js_value = JSUndefined | JSNull | JSBoolean bool | JSString string

text \<open>
  \<^verbatim>\<open>
  function updateComparisonButton() {
      const compareBtn = document.getElementById('compareBtn');
      if (compareBtn && selectedPackages.size > 0) {
          compareBtn.href = `/compare?package_id=${Array.from(selectedPackages).join('&package_id=')}`;
          compareBtn.style.display = 'block';
      }
  }
  \<close>
\<close>

definition updateComparisonButton :: "page \<Rightarrow> page" where
  "updateComparisonButton s =
     (case compareBtn s of
        None \<Rightarrow> s
      | Some b \<Rightarrow>
          if Set_size (selectedPackages s) > 0
          then s\<lparr>compareBtn := Some (b\<lparr>
                 href := ''/compare?package_id='' @
                         join (Array_from (selectedPackages s)) ''&package_id='',
                 display := ''block''\<rparr>)\<rparr>
          else s)"

text \<open>
  \<^verbatim>\<open>
  function togglePackageComparison(packageId) {
      if (selectedPackages.has(packageId)) {
          selectedPackages.delete(packageId);
      } else {
          if (selectedPackages.size < 3) {
              selectedPackages.add(packageId);
          } else {
              alert('You can compare up to 3 packages at a time.');
          }
      }
      updateComparisonButton();
  }
  \<close>
  The result is the value of the call together with the state it leaves.
\<close>

definition togglePackageComparison :: "string \<Rightarrow> page \<Rightarrow> js_value \<times> page" where
  "togglePackageComparison packageId s =
     (let s1 =
        (if Set_has (selectedPackages s) packageId
         then s\<lparr>selectedPackages := Set_delete (selectedPackages s) packageId\<rparr>
         else if Set_size (selectedPackages s) < 3
              then s\<lparr>selectedPackages := Set_add (selectedPackages s) packageId\<rparr>
              else s\<lparr>alerts := alerts s @ [''You can compare up to 3 packages at a time.'']\<rparr>)
      in (JSUndefined, updateComparisonButton s1))"

text \<open>
  The page as the script leaves it when loaded: an empty set, no alert shown yet, and
  whatever compare button the document has.
\<close>

definition initial_page :: "anchor option \<Rightarrow> page" where
  "initial_page btn = \<lparr>selectedPackages = Set_new, compareBtn = btn, alerts = []\<rparr>"

text \<open>A history of toggle calls, run one after the other.\<close>

fun toggles :: "string list \<Rightarrow> page \<Rightarrow> page" where
  "toggles [] s = s"
| "toggles (i # is) s = toggles is (snd (togglePackageComparison i s))"

subsection \<open>Reading a link\<close>

text \<open>
  The claims about the comparison link speak of its path and of the parameters of its
  query string. The link is read the way the consumer of a \<open>GET\<close> request reads it
  (RFC 3986 and the form encoding of query strings): the fragment starts at the first
  \<open>#\<close>, the query at the first \<open>?\<close> before it; the query is a list of parameters
  separated by \<open>&\<close> (empty pieces are skipped), each split into name and value at its
  first \<open>=\<close>; in names and values \<open>+\<close> stands for a space and \<open>%\<close> followed by two
  hexadecimal digits for the byte they denote.
\<close>

definition hex_val :: "char \<Rightarrow> nat option" where
  "hex_val c = map_of (zip ''0123456789ABCDEFabcdef''
      [0, 1, 2, 3, 4, 5, 6, 7, 8, 9, 10, 11, 12, 13, 14, 15, 10, 11, 12, 13, 14, 15]) c"

fun percent_decode :: "string \<Rightarrow> string" where
  "percent_decode [] = []"
| "percent_decode (c # cs) =
     (if c = CHR ''+'' then CHR '' '' # percent_decode cs
      else if c = CHR ''%'' then
        (case cs of
           h1 # h2 # rest \<Rightarrow>
             (case (hex_val h1, hex_val h2) of
                (Some a, Some b) \<Rightarrow> char_of (16 * a + b) # percent_decode rest
              | _ \<Rightarrow> c # percent_decode cs)
         | _ \<Rightarrow> c # percent_decode cs)
      else c # percent_decode cs)"

text \<open>
  The characters RFC 3986 calls unreserved: they never need percent-encoding and mean
  themselves wherever they stand in a URI.
\<close>

definition unreserved :: "char \<Rightarrow> bool" where
  "unreserved c =
     (c \<in> set ''ABCDEFGHIJKLMNOPQRSTUVWXYZabcdefghijklmnopqrstuvwxyz0123456789-._~'')"

fun split_on :: "char \<Rightarrow> string \<Rightarrow> string list" where
  "split_on c [] = [[]]"
| "split_on c (x # xs) =
     (if x = c then [] # split_on c xs
      else (case split_on c xs of
              [] \<Rightarrow> [[x]]
            | w # ws \<Rightarrow> (x # w) # ws))"

definition uri_without_fragment :: "string \<Rightarrow> string" where
  "uri_without_fragment u = takeWhile (\<lambda>c. c \<noteq> CHR ''#'') u"

definition uri_path :: "string \<Rightarrow> string" where
  "uri_path u = takeWhile (\<lambda>c. c \<noteq> CHR ''?'') (uri_without_fragment u)"

definition uri_query :: "string \<Rightarrow> string option" where
  "uri_query u =
     (case dropWhile (\<lambda>c. c \<noteq> CHR ''?'') (uri_without_fragment u) of
        [] \<Rightarrow> None
      | q # rest \<Rightarrow> Some rest)"

definition query_param :: "string \<Rightarrow> string \<times> string" where
  "query_param p =
     (takeWhile (\<lambda>c. c \<noteq> CHR ''='') p,
      case dropWhile (\<lambda>c. c \<noteq> CHR ''='') p of [] \<Rightarrow> [] | e # v \<Rightarrow> v)"

definition uri_params :: "string \<Rightarrow> (string \<times> string) list" where
  "uri_params u =
     (case uri_query u of
        None \<Rightarrow> []
      | Some q \<Rightarrow>
          map (\<lambda>p. (percent_decode (fst (query_param p)), percent_decode (snd (query_param p))))
            (filter (\<lambda>p. p \<noteq> []) (split_on CHR ''&'' q)))"

section \<open>Map wrapper (static/js/mapbox.js)\<close>

text \<open>
  The class \<open>ExploreEaseMap\<close> keeps the handle of the Mapbox map, \<open>null\<close> until
  \<open>new mapboxgl.Map\<close> has succeeded and again after \<open>destroy\<close>, and the array of the
  markers it has placed. Coordinates (\<open>'c\<close>) and the map handle (\<open>'m\<close>) belong to the
  Mapbox SDK and stay abstract. A marker is recorded as what \<open>addMarker\<close> gave the SDK:
  the element, the coordinate, the map it was added to and the popup, if any.
\<close>

text \<open>The properties of the marker's \<open>div\<close> that the code sets; the last three are on \<open>el.style\<close>.\<close>

record dom_element =
  className :: string
  innerHTML :: string
  color :: string
  fontSize :: string
  cursor :: string

record popup_obj =
  offset :: nat
  html :: string

record ('c, 'm) marker =
  marker_element :: dom_element
  marker_lngLat :: 'c
  marker_map :: 'm
  marker_popup :: "popup_obj option"

record properties =
  popup :: "string option"

record ('c, 'm) ExploreEaseMap =
  containerId :: string
  map_obj :: "'m option"
  markers :: "('c, 'm) marker list"

text \<open>How a call ends: with a value, or with an exception thrown to the caller.\<close>

datatype 'a outcome = Returned 'a | Thrown string

text \<open>
  \<^verbatim>\<open>
  addMarker(lngLat, properties = {}) {
      if (!this.map) return null;

      const el = document.createElement('div');
      el.className = 'map-marker';
      el.innerHTML = '<i class="fas fa-map-marker-alt"></i>';
      el.style.color = '#e74c3c';
      el.style.fontSize = '24px';
      el.style.cursor = 'pointer';

      const marker = new mapboxgl.Marker(el)
          .setLngLat(lngLat)
          .addTo(this.map);

      if (properties.popup) {
          const popup = new mapboxgl.Popup({ offset: 25 })
              .setHTML(properties.popup);
          marker.setPopup(popup);
      }

      this.markers.push(marker);
      return marker;
  }
  \<close>
  The SDK's \<open>setLngLat\<close> throws on a coordinate it cannot convert; which coordinates
  those are is the SDK's business, so the check is a parameter: \<open>lngLat_error c\<close> is the
  message of the error thrown for \<open>c\<close>, if any. \<open>null\<close> is \<open>None\<close>. A string is
  truthy when it is not empty.
\<close>

definition addMarker ::
  "('c \<Rightarrow> string option) \<Rightarrow> 'c \<Rightarrow> properties \<Rightarrow> ('c, 'm) ExploreEaseMap \<Rightarrow>
     ('c, 'm) marker option outcome \<times> ('c, 'm) ExploreEaseMap" where
  \<open>addMarker lngLat_error lngLat props this =
     (case map_obj this of
        None \<Rightarrow> (Returned None, this)
      | Some m \<Rightarrow>
          (let el = \<lparr>className = ''map-marker'',
                     innerHTML = ''<i class="fas fa-map-marker-alt"></i>'',
                     color = ''#e74c3c'',
                     fontSize = ''24px'',
                     cursor = ''pointer''\<rparr>
           in case lngLat_error lngLat of
                Some e \<Rightarrow> (Thrown e, this)
              | None \<Rightarrow>
                  (let marker0 = \<lparr>marker_element = el, marker_lngLat = lngLat, marker_map = m,
                                   marker_popup = None\<rparr>;
                       marker1 =
                         (case popup props of
                            None \<Rightarrow> marker0
                          | Some h \<Rightarrow>
                              if h \<noteq> []
                              then marker0\<lparr>marker_popup := Some \<lparr>offset = 25, html = h\<rparr>\<rparr>
                              else marker0)
                   in (Returned (Some marker1), this\<lparr>markers := markers this @ [marker1]\<rparr>))))\<close>

section \<open>Properties of the selection\<close>

lemma selectedPackages_update [simp]:
  "selectedPackages (updateComparisonButton s) = selectedPackages s"
  by (simp add: updateComparisonButton_def split: option.split)

lemma alerts_update [simp]:
  "alerts (updateComparisonButton s) = alerts s"
  by (simp add: updateComparisonButton_def split: option.split)

lemma toggle_selected:
  "selectedPackages (snd (togglePackageComparison i s)) =
     (if i \<in> set (selectedPackages s) then removeAll i (selectedPackages s)
      else if length (selectedPackages s) < 3 then selectedPackages s @ [i]
      else selectedPackages s)"
  by (simp add: togglePackageComparison_def Let_def Set_has_def Set_delete_def
      Set_add_def Set_size_def)

lemma toggle_alerts:
  "alerts (snd (togglePackageComparison i s)) =
     (if i \<notin> set (selectedPackages s) \<and> \<not> length (selectedPackages s) < 3
      then alerts s @ [''You can compare up to 3 packages at a time.'']
      else alerts s)"
  by (simp add: togglePackageComparison_def Let_def Set_has_def Set_size_def)

lemma toggle_distinct:
  "distinct (selectedPackages s) \<Longrightarrow>
   distinct (selectedPackages (snd (togglePackageComparison i s)))"
  by (simp add: toggle_selected distinct_removeAll)

lemma toggle_bounded:
  "length (selectedPackages s) \<le> 3 \<Longrightarrow>
   length (selectedPackages (snd (togglePackageComparison i s))) \<le> 3"
proof -
  assume b: "length (selectedPackages s) \<le> 3"
  have "length (removeAll i (selectedPackages s)) \<le> length (selectedPackages s)"
    by (rule length_removeAll_less_eq)
  with b have "length (removeAll i (selectedPackages s)) \<le> 3"
    by (rule le_trans [rotated])
  with b show ?thesis by (auto simp add: toggle_selected)
qed

lemma toggles_distinct:
  "distinct (selectedPackages s) \<Longrightarrow> distinct (selectedPackages (toggles is s))"
  by (induction "is" arbitrary: s) (simp_all add: toggle_distinct)

lemma toggles_bounded:
  "length (selectedPackages s) \<le> 3 \<Longrightarrow> length (selectedPackages (toggles is s)) \<le> 3"
  by (induction "is" arbitrary: s) (simp_all add: toggle_bounded)

text \<open>
  Claim C1. Starting from the empty selection, after any number of the calls of any
  sequence of toggles the set of selected package identifiers has at most 3 elements.
\<close>

theorem C1_selection_never_exceeds_three:
  "card (set (selectedPackages (toggles (take n ids) (initial_page btn)))) \<le> 3"
proof -
  have "length (selectedPackages (toggles (take n ids) (initial_page btn))) \<le> 3"
    by (rule toggles_bounded) (simp add: initial_page_def Set_new_def)
  moreover have "card (set (selectedPackages (toggles (take n ids) (initial_page btn))))
      \<le> length (selectedPackages (toggles (take n ids) (initial_page btn)))"
    by (rule card_length)
  ultimately show ?thesis by simp
qed

lemma toggle_returns_undefined: "fst (togglePackageComparison i s) = JSUndefined"
  by (simp add: togglePackageComparison_def Let_def)

lemma length_removeAll_distinct:
  "distinct xs \<Longrightarrow> x \<in> set xs \<Longrightarrow> Suc (length (removeAll x xs)) = length xs"
  by (induction xs) auto

text \<open>
  Claim C3. When the identifier is not selected and the set already holds 3 members, the
  call leaves the set as it was, passes the notice to \<open>alert\<close> (one more message shown
  to the user, the ones before it untouched) and completes normally with
  \<open>undefined\<close>: the model has no exceptional result because the function has no
  \<open>throw\<close> and calls nothing that throws.
\<close>

theorem C3_rejected_at_capacity:
  assumes "\<not> Set_has (selectedPackages s) packageId"
    and "Set_size (selectedPackages s) = 3"
  shows "togglePackageComparison packageId s =
           (JSUndefined,
            updateComparisonButton
              (s\<lparr>alerts := alerts s @ [''You can compare up to 3 packages at a time.'']\<rparr>))
         \<and> selectedPackages (snd (togglePackageComparison packageId s)) = selectedPackages s
         \<and> alerts (snd (togglePackageComparison packageId s)) =
             alerts s @ [''You can compare up to 3 packages at a time.'']"
  using assms by (simp add: togglePackageComparison_def Let_def)

theorem C3_rejected_at_capacity_witness:
  "\<not> Set_has [''p1'', ''p2'', ''p3''] ''p4'' \<and> Set_size [''p1'', ''p2'', ''p3''] = 3
   \<and> selectedPackages (snd (togglePackageComparison ''p4''
        \<lparr>selectedPackages = [''p1'', ''p2'', ''p3''], compareBtn = None, alerts = []\<rparr>))
      = [''p1'', ''p2'', ''p3'']
   \<and> alerts (snd (togglePackageComparison ''p4''
        \<lparr>selectedPackages = [''p1'', ''p2'', ''p3''], compareBtn = None, alerts = []\<rparr>))
      = [''You can compare up to 3 packages at a time.'']"
proof -
  have h1: "\<not> Set_has (selectedPackages
      \<lparr>selectedPackages = [''p1'', ''p2'', ''p3''], compareBtn = None, alerts = []\<rparr>) ''p4''"
    by (simp add: Set_has_def)
  have h2: "Set_size (selectedPackages
      \<lparr>selectedPackages = [''p1'', ''p2'', ''p3''], compareBtn = None, alerts = []\<rparr>) = 3"
    by (simp add: Set_size_def)
  show ?thesis
    using C3_rejected_at_capacity [OF h1 h2] h1 h2 by simp
qed

text \<open>
  Claim C6. When the identifier is selected, the call removes it: it is no longer a
  member, every other member stays, the size goes down by exactly one, and no notice is
  raised, whatever the size of the set.
\<close>

theorem C6_member_is_removed:
  assumes "distinct (selectedPackages s)"
    and "Set_has (selectedPackages s) packageId"
  shows "\<not> Set_has (selectedPackages (snd (togglePackageComparison packageId s))) packageId
         \<and> set (selectedPackages (snd (togglePackageComparison packageId s))) =
             set (selectedPackages s) - {packageId}
         \<and> Suc (Set_size (selectedPackages (snd (togglePackageComparison packageId s)))) =
             Set_size (selectedPackages s)
         \<and> alerts (snd (togglePackageComparison packageId s)) = alerts s
         \<and> fst (togglePackageComparison packageId s) = JSUndefined"
  using assms
  by (simp add: toggle_selected toggle_alerts toggle_returns_undefined Set_has_def
      Set_size_def length_removeAll_distinct)

theorem C6_member_is_removed_witness:
  "distinct [''p1'', ''p2'', ''p3''] \<and> Set_has [''p1'', ''p2'', ''p3''] ''p2''
   \<and> selectedPackages (snd (togglePackageComparison ''p2''
        \<lparr>selectedPackages = [''p1'', ''p2'', ''p3''], compareBtn = None, alerts = []\<rparr>))
      = [''p1'', ''p3'']
   \<and> alerts (snd (togglePackageComparison ''p2''
        \<lparr>selectedPackages = [''p1'', ''p2'', ''p3''], compareBtn = None, alerts = []\<rparr>))
      = []"
proof -
  have h1: "distinct (selectedPackages
      \<lparr>selectedPackages = [''p1'', ''p2'', ''p3''], compareBtn = None, alerts = []\<rparr>)"
    by simp
  have h2: "Set_has (selectedPackages
      \<lparr>selectedPackages = [''p1'', ''p2'', ''p3''], compareBtn = None, alerts = []\<rparr>) ''p2''"
    by (simp add: Set_has_def)
  have "selectedPackages (snd (togglePackageComparison ''p2''
        \<lparr>selectedPackages = [''p1'', ''p2'', ''p3''], compareBtn = None, alerts = []\<rparr>))
      = [''p1'', ''p3'']"
    by (simp add: toggle_selected)
  with C6_member_is_removed [OF h1 h2] h1 h2 show ?thesis
    by simp
qed

text \<open>
  Claim C7. In every state reached from the empty selection by toggle calls, toggling
  the same identifier twice in a row gives back the membership the set had before.
\<close>

theorem C7_double_toggle_restores_membership:
  "set (selectedPackages
          (snd (togglePackageComparison packageId
             (snd (togglePackageComparison packageId (toggles ids (initial_page btn)))))))
   = set (selectedPackages (toggles ids (initial_page btn)))"
proof -
  define s where "s = toggles ids (initial_page btn)"
  have len: "length (selectedPackages s) \<le> 3"
    unfolding s_def by (rule toggles_bounded) (simp add: initial_page_def Set_new_def)
  have dis: "distinct (selectedPackages s)"
    unfolding s_def by (rule toggles_distinct) (simp add: initial_page_def Set_new_def)
  have "set (selectedPackages
          (snd (togglePackageComparison packageId (snd (togglePackageComparison packageId s)))))
        = set (selectedPackages s)"
  proof (cases "packageId \<in> set (selectedPackages s)")
    case True
    with dis have "Suc (length (removeAll packageId (selectedPackages s))) =
        length (selectedPackages s)"
      by (simp add: length_removeAll_distinct)
    with len have "length (removeAll packageId (selectedPackages s)) < 3" by simp
    with True show ?thesis by (auto simp add: toggle_selected)
  next
    case False
    then show ?thesis by (simp add: toggle_selected)
  qed
  then show ?thesis by (simp add: s_def)
qed

text \<open>
  Claim C9. The call does not inspect the identifier. In a state with fewer than 3
  members, any string that is not yet a member, the empty string among them, becomes
  the newest member; the size goes up by one and no notice is raised.
\<close>

theorem C9_any_string_is_added:
  assumes "Set_size (selectedPackages s) < 3"
    and "\<not> Set_has (selectedPackages s) packageId"
  shows "Array_from (selectedPackages (snd (togglePackageComparison packageId s))) =
           Array_from (selectedPackages s) @ [packageId]
         \<and> Set_has (selectedPackages (snd (togglePackageComparison packageId s))) packageId
         \<and> Set_size (selectedPackages (snd (togglePackageComparison packageId s))) =
             Suc (Set_size (selectedPackages s))
         \<and> alerts (snd (togglePackageComparison packageId s)) = alerts s"
  using assms
  by (simp add: toggle_selected toggle_alerts Set_has_def Set_size_def Array_from_def)

theorem C9_any_string_is_added_witness:
  "Set_size [''p1'', ''p2''] < 3 \<and> \<not> Set_has [''p1'', ''p2''] ''''
   \<and> selectedPackages (snd (togglePackageComparison ''''
        \<lparr>selectedPackages = [''p1'', ''p2''], compareBtn = None, alerts = []\<rparr>))
      = [''p1'', ''p2'', '''']"
proof -
  have h1: "Set_size (selectedPackages
      \<lparr>selectedPackages = [''p1'', ''p2''], compareBtn = None, alerts = []\<rparr>) < 3"
    by (simp add: Set_size_def)
  have h2: "\<not> Set_has (selectedPackages
      \<lparr>selectedPackages = [''p1'', ''p2''], compareBtn = None, alerts = []\<rparr>) ''''"
    by (simp add: Set_has_def)
  show ?thesis
    using C9_any_string_is_added [OF h1 h2] h1 h2 by (simp add: Array_from_def)
qed

section \<open>Properties of the comparison link\<close>

lemma split_on_free: "c \<notin> set x \<Longrightarrow> split_on c x = [x]"
  by (induction x) (auto split: list.split)

lemma split_on_append: "c \<notin> set x \<Longrightarrow> split_on c (x @ c # rest) = x # split_on c rest"
  by (induction x) (auto split: list.split)

lemma split_on_join:
  "xs \<noteq> [] \<Longrightarrow> \<forall>x\<in>set xs. c \<notin> set x \<Longrightarrow> split_on c (join xs [c]) = xs"
  by (induction xs "[c]" rule: join.induct) (simp_all add: split_on_free split_on_append)

lemma join_prefixed:
  "xs \<noteq> [] \<Longrightarrow> p @ join xs (CHR ''&'' # p) = join (map ((@) p) xs) ''&''"
  by (induction xs "CHR ''&'' # p" rule: join.induct) simp_all

lemma set_join: "set (join xs sep) \<subseteq> set sep \<union> (\<Union>x\<in>set xs. set x)"
  by (induction xs sep rule: join.induct) auto

lemma compare_href_shape:
  "L \<noteq> [] \<Longrightarrow>
   ''/compare?package_id='' @ join L ''&package_id='' =
   ''/compare?'' @ join (map ((@) ''package_id='') L) ''&''"
  using join_prefixed [of L "''package_id=''"] by simp

lemma compare_href_path:
  assumes "L \<noteq> []" and "\<forall>i\<in>set L. CHR ''#'' \<notin> set i"
  shows "uri_without_fragment (''/compare?package_id='' @ join L ''&package_id='') =
         ''/compare?'' @ join (map ((@) ''package_id='') L) ''&''"
proof -
  have "CHR ''#'' \<notin> set (join L ''&package_id='')"
    using set_join [of L "''&package_id=''"] assms(2) by auto
  then have "CHR ''#'' \<notin> set (''/compare?package_id='' @ join L ''&package_id='')"
    by simp
  then have "uri_without_fragment (''/compare?package_id='' @ join L ''&package_id='') =
      ''/compare?package_id='' @ join L ''&package_id=''"
    unfolding uri_without_fragment_def by (simp only: takeWhile_eq_all_conv) blast
  also have "\<dots> = ''/compare?'' @ join (map ((@) ''package_id='') L) ''&''"
    using assms(1) by (rule compare_href_shape)
  finally show ?thesis .
qed

lemma unreserved_plain:
  "unreserved c \<Longrightarrow>
   c \<noteq> CHR ''&'' \<and> c \<noteq> CHR ''#'' \<and> c \<noteq> CHR ''%'' \<and> c \<noteq> CHR ''+''"
  by (auto simp add: unreserved_def)

lemma percent_decode_plain:
  "CHR ''%'' \<notin> set i \<Longrightarrow> CHR ''+'' \<notin> set i \<Longrightarrow> percent_decode i = i"
  by (induction i) auto

lemma compare_href_read:
  assumes "L \<noteq> []" and "\<forall>i\<in>set L. \<forall>c\<in>set i. unreserved c"
  shows "uri_path (''/compare?package_id='' @ join L ''&package_id='') = ''/compare''"
    and "uri_params (''/compare?package_id='' @ join L ''&package_id='') =
           map (\<lambda>i. (''package_id'', i)) L"
proof -
  let ?h = "''/compare?package_id='' @ join L ''&package_id=''"
  let ?ps = "map ((@) ''package_id='') L"
  from assms(2) have plain: "\<forall>i\<in>set L. CHR ''&'' \<notin> set i \<and> CHR ''#'' \<notin> set i
      \<and> CHR ''%'' \<notin> set i \<and> CHR ''+'' \<notin> set i"
    using unreserved_plain by blast
  have frag: "uri_without_fragment ?h = ''/compare?'' @ join ?ps ''&''"
    using assms(1) plain by (intro compare_href_path) auto
  show "uri_path ?h = ''/compare''"
    unfolding uri_path_def frag by simp
  have q: "uri_query ?h = Some (join ?ps ''&'')"
    unfolding uri_query_def frag by simp
  have "split_on CHR ''&'' (join ?ps ''&'') = ?ps"
    using assms(1) plain by (intro split_on_join) auto
  moreover have "filter (\<lambda>p. p \<noteq> []) ?ps = ?ps"
    by (induction L) simp_all
  moreover have "map (\<lambda>p. (percent_decode (fst (query_param p)),
        percent_decode (snd (query_param p)))) ?ps = map (\<lambda>i. (''package_id'', i)) L"
    using plain by (simp add: query_param_def percent_decode_plain)
  ultimately show "uri_params ?h = map (\<lambda>i. (''package_id'', i)) L"
    unfolding uri_params_def q by simp
qed

lemma update_button:
  "compareBtn (updateComparisonButton s) =
     (case compareBtn s of
        None \<Rightarrow> None
      | Some b \<Rightarrow>
          if selectedPackages s = [] then Some b
          else Some \<lparr>href = ''/compare?package_id='' @ join (selectedPackages s) ''&package_id='',
                      display = ''block''\<rparr>)"
  by (simp add: updateComparisonButton_def Set_size_def Array_from_def split: option.split)

text \<open>
  Claim C2, as amended. The identifiers go into the link as they are, with no
  percent-encoding, so a character that has a meaning of its own in a URI (\<open>&\<close>,
  \<open>#\<close>, \<open>%\<close>, \<open>+\<close>) is read as that, not as part of the identifier. When the page has
  the compare button, the selection is not empty and every selected identifier is made
  of unreserved characters only (letters, digits, \<open>-\<close>, \<open>.\<close>, \<open>_\<close>, \<open>~\<close>), the link
  written to the button is \<open>/compare?\<close> followed by one piece \<open>package_id=i\<close> for
  each member \<open>i\<close>, joined by \<open>&\<close>; it has the path \<open>/compare\<close> and its query
  string, decoded, has exactly the parameters \<open>package_id = i\<close>, one for each member \<open>i\<close> in insertion
  order, no two of them equal.
\<close>

theorem C2_link_parameters:
  assumes "compareBtn s = Some b"
    and "Set_size (selectedPackages s) > 0"
    and "distinct (selectedPackages s)"
    and "\<forall>i\<in>set (selectedPackages s). \<forall>c\<in>set i. unreserved c"
  shows "\<exists>b'. compareBtn (updateComparisonButton s) = Some b'
           \<and> href b' = ''/compare?'' @
               join (map (\<lambda>i. ''package_id='' @ i) (Array_from (selectedPackages s))) ''&''
           \<and> uri_path (href b') = ''/compare''
           \<and> uri_params (href b') =
               map (\<lambda>i. (''package_id'', i)) (Array_from (selectedPackages s))
           \<and> distinct (uri_params (href b'))"
proof -
  let ?L = "selectedPackages s"
  let ?h = "''/compare?package_id='' @ join ?L ''&package_id=''"
  from assms(2) have ne: "?L \<noteq> []" by (simp add: Set_size_def)
  have btn: "compareBtn (updateComparisonButton s) = Some \<lparr>href = ?h, display = ''block''\<rparr>"
    using assms(1) ne by (simp add: update_button)
  have p: "uri_path ?h = ''/compare''"
    and q: "uri_params ?h = map (\<lambda>i. (''package_id'', i)) ?L"
    using compare_href_read [OF ne assms(4)] by blast+
  have "distinct (map (\<lambda>i. (''package_id'', i)) ?L)"
    using assms(3) by (simp add: distinct_map inj_on_def)
  moreover have "?h = ''/compare?'' @ join (map (\<lambda>i. ''package_id='' @ i) ?L) ''&''"
    using ne by (rule compare_href_shape)
  ultimately show ?thesis using btn p q by (simp add: Array_from_def)
qed

theorem C2_link_parameters_witness:
  "\<exists>b'. compareBtn (updateComparisonButton
           \<lparr>selectedPackages = [''p1'', ''p2''],
            compareBtn = Some \<lparr>href = ''#'', display = ''none''\<rparr>, alerts = []\<rparr>) = Some b'
        \<and> href b' = ''/compare?package_id=p1&package_id=p2''
        \<and> uri_path (href b') = ''/compare''
        \<and> uri_params (href b') = [(''package_id'', ''p1''), (''package_id'', ''p2'')]"
proof -
  let ?s = "\<lparr>selectedPackages = [''p1'', ''p2''],
            compareBtn = Some \<lparr>href = ''#'', display = ''none''\<rparr>, alerts = []\<rparr>"
  have h1: "compareBtn ?s = Some \<lparr>href = ''#'', display = ''none''\<rparr>" by simp
  have h2: "Set_size (selectedPackages ?s) > 0" by (simp add: Set_size_def)
  have h3: "distinct (selectedPackages ?s)" by simp
  have h4: "\<forall>i\<in>set (selectedPackages ?s). \<forall>c\<in>set i. unreserved c"
    by (simp add: unreserved_def)
  have h5: "compareBtn (updateComparisonButton ?s) =
      Some \<lparr>href = ''/compare?package_id=p1&package_id=p2'', display = ''block''\<rparr>"
    by (simp add: update_button)
  show ?thesis
    using C2_link_parameters [OF h1 h2 h3 h4] h5 by (auto simp add: Array_from_def)
qed

text \<open>
  Claim C2 as stated fails: the single selected identifier \<open>7&package_id=7\<close> gives
  a link whose query string has two parameters \<open>package_id\<close>, both with the value
  \<open>7\<close>, for a set of one member; the two selected identifiers \<open>a#1\<close> and
  \<open>a#2\<close> give a link whose query string ends at the first \<open>#\<close> and has one
  parameter for a set of two members; and the two selected identifiers \<open>A\<close> and
  \<open>%41\<close> give a link whose two parameters both have the value \<open>A\<close>.
\<close>

theorem C2_unencoded_identifier_counterexample:
  "Set_size (selectedPackages (toggles [''7&package_id=7'']
      (initial_page (Some \<lparr>href = ''#'', display = ''none''\<rparr>)))) = 1
   \<and> map_option (\<lambda>b. uri_params (href b))
        (compareBtn (toggles [''7&package_id=7'']
           (initial_page (Some \<lparr>href = ''#'', display = ''none''\<rparr>))))
     = Some [(''package_id'', ''7''), (''package_id'', ''7'')]
   \<and> Set_size (selectedPackages (toggles [''a#1'', ''a#2'']
      (initial_page (Some \<lparr>href = ''#'', display = ''none''\<rparr>)))) = 2
   \<and> map_option (\<lambda>b. uri_params (href b))
        (compareBtn (toggles [''a#1'', ''a#2'']
           (initial_page (Some \<lparr>href = ''#'', display = ''none''\<rparr>))))
     = Some [(''package_id'', ''a'')]
   \<and> selectedPackages (toggles [''A'', ''%41'']
      (initial_page (Some \<lparr>href = ''#'', display = ''none''\<rparr>))) = [''A'', ''%41'']
   \<and> map_option (\<lambda>b. uri_params (href b))
        (compareBtn (toggles [''A'', ''%41'']
           (initial_page (Some \<lparr>href = ''#'', display = ''none''\<rparr>))))
     = Some [(''package_id'', ''A''), (''package_id'', ''A'')]"
  by code_simp

text \<open>
  Claim C4. Emptying the selection again does not take the link back: after
  \<open>toggle(p1)\<close>, \<open>toggle(p1)\<close> the set is empty, and the button still shows and still
  points to the comparison of \<open>p1\<close>.
\<close>

theorem C4_link_stays_after_deselecting:
  "toggles [''p1'', ''p1''] (initial_page (Some \<lparr>href = ''#'', display = ''none''\<rparr>)) =
     \<lparr>selectedPackages = [],
      compareBtn = Some \<lparr>href = ''/compare?package_id=p1'', display = ''block''\<rparr>,
      alerts = []\<rparr>"
  by (simp add: initial_page_def Set_new_def togglePackageComparison_def Set_has_def
      Set_size_def Set_add_def Set_delete_def updateComparisonButton_def Array_from_def)

text \<open>
  Claim C8 as stated fails: selecting \<open>a\<close> then \<open>b\<close>, and \<open>b\<close> then \<open>a\<close>, give the
  same membership and two different links.
\<close>

theorem C8_insertion_order_counterexample:
  "set (selectedPackages (toggles [''a'', ''b'']
          (initial_page (Some \<lparr>href = ''#'', display = ''none''\<rparr>)))) =
   set (selectedPackages (toggles [''b'', ''a'']
          (initial_page (Some \<lparr>href = ''#'', display = ''none''\<rparr>))))
   \<and> compareBtn (toggles [''a'', ''b'']
          (initial_page (Some \<lparr>href = ''#'', display = ''none''\<rparr>))) =
       Some \<lparr>href = ''/compare?package_id=a&package_id=b'', display = ''block''\<rparr>
   \<and> compareBtn (toggles [''b'', ''a'']
          (initial_page (Some \<lparr>href = ''#'', display = ''none''\<rparr>))) =
       Some \<lparr>href = ''/compare?package_id=b&package_id=a'', display = ''block''\<rparr>"
  by (auto simp add: initial_page_def Set_new_def togglePackageComparison_def Set_has_def
      Set_size_def Set_add_def Set_delete_def updateComparisonButton_def Array_from_def)

lemma toggle_button:
  "compareBtn (snd (togglePackageComparison i s)) =
     (case compareBtn s of
        None \<Rightarrow> None
      | Some b \<Rightarrow>
          if selectedPackages (snd (togglePackageComparison i s)) = [] then Some b
          else Some \<lparr>href = ''/compare?package_id='' @
                        join (selectedPackages (snd (togglePackageComparison i s)))
                          ''&package_id='',
                      display = ''block''\<rparr>)"
  by (simp add: togglePackageComparison_def Let_def update_button split: option.split)

lemma toggles_button:
  assumes "(compareBtn s = None) = (btn = None)"
    and "selectedPackages s \<noteq> [] \<longrightarrow>
         compareBtn s = map_option (\<lambda>b. \<lparr>href = ''/compare?package_id='' @
             join (selectedPackages s) ''&package_id='', display = ''block''\<rparr>) btn"
    and "selectedPackages (toggles is s) \<noteq> []"
  shows "compareBtn (toggles is s) =
         map_option (\<lambda>b. \<lparr>href = ''/compare?package_id='' @
             join (selectedPackages (toggles is s)) ''&package_id='', display = ''block''\<rparr>) btn"
  using assms
proof (induction "is" arbitrary: s)
  case Nil
  then show ?case by simp
next
  case (Cons i "is")
  let ?s' = "snd (togglePackageComparison i s)"
  have a: "(compareBtn ?s' = None) = (btn = None)"
    using Cons.prems(1) by (auto simp add: toggle_button split: option.splits)
  have b: "selectedPackages ?s' \<noteq> [] \<longrightarrow>
         compareBtn ?s' = map_option (\<lambda>b. \<lparr>href = ''/compare?package_id='' @
             join (selectedPackages ?s') ''&package_id='', display = ''block''\<rparr>) btn"
    using Cons.prems(1) by (cases btn) (auto simp add: toggle_button split: option.splits)
  from Cons.prems(3) have c: "selectedPackages (toggles is ?s') \<noteq> []" by simp
  from Cons.IH [OF a b c] show ?case by simp
qed

lemma toggles_fresh:
  "distinct ids \<Longrightarrow> set ids \<inter> set (selectedPackages s) = {} \<Longrightarrow>
   length (selectedPackages s) + length ids \<le> 3 \<Longrightarrow>
   selectedPackages (toggles ids s) = selectedPackages s @ ids"
proof (induction ids arbitrary: s)
  case Nil
  then show ?case by simp
next
  case (Cons i ids)
  let ?s' = "snd (togglePackageComparison i s)"
  from Cons.prems have sel: "selectedPackages ?s' = selectedPackages s @ [i]"
    by (simp add: toggle_selected)
  with Cons.prems have "selectedPackages (toggles ids ?s') = selectedPackages ?s' @ ids"
    by (intro Cons.IH) auto
  with sel show ?case by simp
qed

text \<open>
  Claim C8, as amended. The link lists the members in the insertion order of the set, so
  it is a function of the selection with its order, not of the membership alone. After
  any history from the empty selection that leaves at least one member, the link on the
  button is \<open>/compare?package_id=\<close> followed by the members in the order
  \<open>Array.from\<close> gives them, joined by \<open>&package_id=\<close>; any other history that
  leaves the same members in the same order leaves the same link; and when the history
  is up to 3 calls with different identifiers, that order is the order of the calls.
\<close>

theorem C8_link_determined_by_ordered_selection:
  assumes "Set_size (selectedPackages (toggles h1 (initial_page btn))) > 0"
  shows "compareBtn (toggles h1 (initial_page btn)) =
           map_option (\<lambda>b. \<lparr>href = ''/compare?package_id='' @
               join (Array_from (selectedPackages (toggles h1 (initial_page btn))))
                 ''&package_id='',
             display = ''block''\<rparr>) btn
         \<and> (Array_from (selectedPackages (toggles h2 (initial_page btn))) =
              Array_from (selectedPackages (toggles h1 (initial_page btn)))
            \<longrightarrow> compareBtn (toggles h2 (initial_page btn)) =
                compareBtn (toggles h1 (initial_page btn)))
         \<and> (distinct h1 \<and> length h1 \<le> 3
            \<longrightarrow> Array_from (selectedPackages (toggles h1 (initial_page btn))) = h1)"
proof -
  let ?i = "initial_page btn"
  have i1: "(compareBtn ?i = None) = (btn = None)" by (simp add: initial_page_def)
  have i2: "selectedPackages ?i \<noteq> [] \<longrightarrow>
         compareBtn ?i = map_option (\<lambda>b. \<lparr>href = ''/compare?package_id='' @
             join (selectedPackages ?i) ''&package_id='', display = ''block''\<rparr>) btn"
    by (simp add: initial_page_def Set_new_def)
  from assms have n1: "selectedPackages (toggles h1 ?i) \<noteq> []"
    by (simp add: Set_size_def)
  have a: "compareBtn (toggles h1 ?i) =
           map_option (\<lambda>b. \<lparr>href = ''/compare?package_id='' @
               join (Array_from (selectedPackages (toggles h1 ?i))) ''&package_id='',
             display = ''block''\<rparr>) btn"
    using toggles_button [OF i1 i2 n1] by (simp add: Array_from_def)
  have b: "compareBtn (toggles h2 ?i) = compareBtn (toggles h1 ?i)"
    if e: "Array_from (selectedPackages (toggles h2 ?i)) =
           Array_from (selectedPackages (toggles h1 ?i))"
  proof -
    from e n1 have n2: "selectedPackages (toggles h2 ?i) \<noteq> []"
      by (simp add: Array_from_def)
    from toggles_button [OF i1 i2 n2] a e show ?thesis by (simp add: Array_from_def)
  qed
  have c: "Array_from (selectedPackages (toggles h1 ?i)) = h1"
    if "distinct h1 \<and> length h1 \<le> 3"
    using that toggles_fresh [of h1 ?i]
    by (simp add: Array_from_def initial_page_def Set_new_def)
  from a b c show ?thesis by blast
qed

theorem C8_link_determined_by_ordered_selection_witness:
  "Set_size (selectedPackages (toggles [''a'', ''b'']
       (initial_page (Some \<lparr>href = ''#'', display = ''none''\<rparr>)))) > 0
   \<and> Array_from (selectedPackages (toggles [''c'', ''a'', ''c'', ''b'']
       (initial_page (Some \<lparr>href = ''#'', display = ''none''\<rparr>)))) =
     Array_from (selectedPackages (toggles [''a'', ''b'']
       (initial_page (Some \<lparr>href = ''#'', display = ''none''\<rparr>))))
   \<and> distinct [''a'', ''b''] \<and> length [''a'', ''b''] \<le> 3
   \<and> Array_from (selectedPackages (toggles [''a'', ''b'']
       (initial_page (Some \<lparr>href = ''#'', display = ''none''\<rparr>)))) = [''a'', ''b'']
   \<and> compareBtn (toggles [''a'', ''b'']
       (initial_page (Some \<lparr>href = ''#'', display = ''none''\<rparr>))) =
     Some \<lparr>href = ''/compare?package_id=a&package_id=b'', display = ''block''\<rparr>
   \<and> compareBtn (toggles [''c'', ''a'', ''c'', ''b'']
       (initial_page (Some \<lparr>href = ''#'', display = ''none''\<rparr>))) =
     Some \<lparr>href = ''/compare?package_id=a&package_id=b'', display = ''block''\<rparr>"
proof -
  let ?i = "initial_page (Some \<lparr>href = ''#'', display = ''none''\<rparr>)"
  have s1: "selectedPackages (toggles [''a'', ''b''] ?i) = [''a'', ''b'']"
    by (simp add: initial_page_def Set_new_def toggle_selected)
  have s2: "selectedPackages (toggles [''c'', ''a'', ''c'', ''b''] ?i) = [''a'', ''b'']"
    by (simp add: initial_page_def Set_new_def toggle_selected)
  have h1: "Set_size (selectedPackages (toggles [''a'', ''b''] ?i)) > 0"
    by (simp only: s1) (simp add: Set_size_def)
  have h2: "Array_from (selectedPackages (toggles [''c'', ''a'', ''c'', ''b''] ?i)) =
      Array_from (selectedPackages (toggles [''a'', ''b''] ?i))"
    by (simp only: s1 s2)
  have h3: "distinct [''a'', ''b''] \<and> length [''a'', ''b''] \<le> 3" by simp
  from C8_link_determined_by_ordered_selection [OF h1, of "[''c'', ''a'', ''c'', ''b'']"] h1 h2 h3
  show ?thesis by (simp add: s1 s2 Array_from_def)
qed

section \<open>What a toggle call returns\<close>

text \<open>
  Claim C5 as stated fails: a call that adds, a call that removes and a call that is
  rejected all evaluate to \<open>undefined\<close>, so the value returned tells nothing about the
  outcome and carries no membership.
\<close>

theorem C5_same_value_for_all_outcomes_counterexample:
  "togglePackageComparison ''p1'' (initial_page None) =
     (JSUndefined, \<lparr>selectedPackages = [''p1''], compareBtn = None, alerts = []\<rparr>)
   \<and> togglePackageComparison ''p1''
       \<lparr>selectedPackages = [''p1''], compareBtn = None, alerts = []\<rparr> =
     (JSUndefined, \<lparr>selectedPackages = [], compareBtn = None, alerts = []\<rparr>)
   \<and> togglePackageComparison ''p4''
       \<lparr>selectedPackages = [''p1'', ''p2'', ''p3''], compareBtn = None, alerts = []\<rparr> =
     (JSUndefined, \<lparr>selectedPackages = [''p1'', ''p2'', ''p3''], compareBtn = None,
        alerts = [''You can compare up to 3 packages at a time.'']\<rparr>)"
  by (simp add: initial_page_def Set_new_def togglePackageComparison_def Set_has_def
      Set_size_def Set_add_def Set_delete_def updateComparisonButton_def)

text \<open>
  Claim C5, as amended. For every identifier and state the call evaluates to
  \<open>undefined\<close>; the updated membership is what it leaves in the global set, and the
  three outcomes show in the state only: removed (the identifier was a member: the set
  loses it and no notice is raised), added (not a member, fewer than 3: the set gains it
  as newest member and no notice is raised), rejected (not a member, 3 already: the set
  is the same and one notice is raised).
\<close>

theorem C5_outcome_in_state_only:
  "fst (togglePackageComparison packageId s) = JSUndefined
   \<and> selectedPackages (snd (togglePackageComparison packageId s)) =
       (if Set_has (selectedPackages s) packageId
        then Set_delete (selectedPackages s) packageId
        else if Set_size (selectedPackages s) < 3
             then Array_from (selectedPackages s) @ [packageId]
             else selectedPackages s)
   \<and> alerts (snd (togglePackageComparison packageId s)) =
       (if Set_has (selectedPackages s) packageId \<or> Set_size (selectedPackages s) < 3
        then alerts s
        else alerts s @ [''You can compare up to 3 packages at a time.''])"
  by (simp add: toggle_returns_undefined toggle_selected toggle_alerts Set_has_def
      Set_size_def Set_delete_def Array_from_def)

section \<open>Properties of the map wrapper\<close>

text \<open>
  Claim C10. While the map handle is \<open>null\<close>, \<open>addMarker\<close> returns \<open>null\<close> for every
  coordinate and every \<open>properties\<close> argument, whatever the SDK would have made of the
  coordinate; it throws nothing and the object, its \<open>markers\<close> array included, is as
  before.
\<close>

theorem C10_addMarker_without_map:
  assumes "map_obj this = None"
  shows "addMarker lngLat_error lngLat props this = (Returned None, this)
         \<and> markers (snd (addMarker lngLat_error lngLat props this)) = markers this"
  using assms by (simp add: addMarker_def)

theorem C10_addMarker_without_map_witness:
  "addMarker (\<lambda>c. Some ''Invalid LngLat'') (200 :: int, 100 :: int) \<lparr>popup = Some ''<h6>Goa</h6>''\<rparr>
     \<lparr>containerId = ''map'', map_obj = (None :: unit option), markers = []\<rparr> =
   (Returned None, \<lparr>containerId = ''map'', map_obj = None, markers = []\<rparr>)"
proof -
  have h: "map_obj \<lparr>containerId = ''map'', map_obj = (None :: unit option),
      markers = ([] :: (int \<times> int, unit) marker list)\<rparr> = None"
    by simp
  from C10_addMarker_without_map [OF h] show ?thesis by simp
qed

end
